theory Spec2Isabelle
  imports Complex_Main "HOL-Library.Multiset"
begin

section \<open>Nearest training molecules for test predictions\<close>

text \<open>
  The development embeds \<^verbatim>\<open>find_similar_preds\<close> of
  \<^verbatim>\<open>broad/find_similar_preds.py\<close>. The function loads a test set and a training
  set, computes two distance matrices between them (Jaccard distance on Morgan
  fingerprints, cosine distance on the model's molecule vectors), picks for every test
  molecule the \<^verbatim>\<open>num_neighbors\<close> nearest training molecules under the chosen measure,
  builds one dictionary per test molecule, sorts the dictionaries by prediction and
  writes them as CSV rows.

  Distances and predictions are floating-point numbers in the source and real numbers
  here: rounding and NaN entries of the matrices are outside the model. The one NaN the
  code itself creates, the mean of an empty array, is modelled (see \<open>np_mean\<close>).
\<close>

subsection \<open>Errors and observable steps\<close>

text \<open>
  The source raises \<^verbatim>\<open>ValueError\<close> for an unsupported distance measure; the library
  routines it calls raise \<^verbatim>\<open>ValueError\<close> for arrays of the wrong shape and
  \<^verbatim>\<open>IndexError\<close> for an index out of range. A \<^verbatim>\<open>ValueError\<close> carries its message.
\<close>

datatype error = ValueError string | IndexError

text \<open>
  The steps whose order matters: a call of \<^verbatim>\<open>cdist\<close> (with its metric) and the
  opening of \<^verbatim>\<open>save_path\<close> for writing, which creates the file.
\<close>

datatype event = Cdist string | Open_save_path

subsection \<open>Data\<close>

text \<open>
  One \<^verbatim>\<open>OrderedDict\<close> is built per test molecule. Its keys are
  \<^verbatim>\<open>test_smiles\<close>, \<^verbatim>\<open>in_train\<close>, \<^verbatim>\<open>test_pred\<close>, the two averages
  \<^verbatim>\<open>train_{K}_avg_vec_cosine_dist\<close> and \<^verbatim>\<open>train_{K}_avg_morgan_jaccard_dist\<close>, and
  for every rank \<open>i + 1\<close> the four keys \<^verbatim>\<open>train_smiles_{i+1}\<close>,
  \<^verbatim>\<open>train_is_antibiotic_{i+1}\<close>, \<^verbatim>\<open>train_vec_cosine_dist_{i+1}\<close> and
  \<^verbatim>\<open>train_morgan_jaccard_dist_{i+1}\<close>. These keys are pairwise different for every
  \<open>K\<close> and every rank, so no assignment overwrites another and the dictionary is a
  record: five fields and the list of the groups of four, in rank order.
\<close>

record train_group =
  col_train_smiles :: string
  col_train_is_antibiotic :: bool
  col_train_vec_cosine_dist :: real
  col_train_morgan_jaccard_dist :: real

record neighbor =
  col_test_smiles :: string
  col_in_train :: bool
  col_test_pred :: real
  col_avg_vec_cosine_dist :: "real option"
  col_avg_morgan_jaccard_dist :: "real option"
  col_train :: "train_group list"

text \<open>
  The values the function works on once the data is loaded and the model has run:
  the SMILES strings of both data sets, the set of antibiotics, the fingerprint and
  molecule-vector rows of both sets (the lists handed to \<^verbatim>\<open>np.array\<close>), the
  predictions (one list of task predictions per test molecule), and the two arguments
  that steer the selection. \<^verbatim>\<open>len(test_data)\<close> is the length of \<open>test_smiles\<close>.
  All fingerprints come from one routine and all vectors from one model, so the rows of
  one kind have one width; the row types are left abstract.
\<close>

record ('fp, 'vec) inputs =
  test_smiles :: "string list"
  train_smiles :: "string list"
  antibiotics :: "string set"
  test_morgans :: "'fp list"
  train_morgans :: "'fp list"
  test_preds :: "real list list"
  test_vecs :: "'vec list"
  train_vecs :: "'vec list"
  distance_measure :: string
  num_neighbors :: int

text \<open>
  The numeric routines of SciPy and NumPy that the function calls: the two pairwise
  distances that \<^verbatim>\<open>cdist\<close> evaluates, and \<^verbatim>\<open>np.argsort\<close>. The function calls
  \<^verbatim>\<open>np.argsort\<close> without a \<^verbatim>\<open>kind\<close>, that is with NumPy's default sort, which is
  documented as not stable; so the routine is a parameter, and what NumPy promises of
  it is the predicate \<open>argsort_spec\<close> below.
\<close>

record ('fp, 'vec) library =
  jaccard :: "'fp \<Rightarrow> 'fp \<Rightarrow> real"
  cosine :: "'vec \<Rightarrow> 'vec \<Rightarrow> real"
  argsort :: "real list \<Rightarrow> nat list"

subsection \<open>Library operations\<close>

text \<open>
  \<^verbatim>\<open>cdist(XA, XB, metric)\<close> demands two 2-dimensional arrays and returns the matrix of
  the distances of every row of \<open>XA\<close> to every row of \<open>XB\<close>. \<^verbatim>\<open>np.array\<close> of an empty
  list is a 1-dimensional array of shape \<open>(0,)\<close>, which \<^verbatim>\<open>cdist\<close> rejects with a
  \<^verbatim>\<open>ValueError\<close>; a non-empty list of equally wide rows is 2-dimensional.
\<close>

definition cdist :: "('a \<Rightarrow> 'a \<Rightarrow> real) \<Rightarrow> 'a list \<Rightarrow> 'a list \<Rightarrow> error + real list list" where
  "cdist d XA XB =
     (if XA = [] then Inl (ValueError ''XA must be a 2-dimensional array.'')
      else if XB = [] then Inl (ValueError ''XB must be a 2-dimensional array.'')
      else Inr (map (\<lambda>a. map (d a) XB) XA))"

text \<open>\<^verbatim>\<open>xs[i]\<close> for an index that is not negative.\<close>

definition getitem :: "'a list \<Rightarrow> nat \<Rightarrow> error + 'a" where
  "getitem xs i = (if i < length xs then Inr (xs ! i) else Inl IndexError)"

text \<open>
  \<^verbatim>\<open>xs[:k]\<close>: the first \<open>k\<close> elements (all of them when there are fewer); for a negative
  \<open>k\<close> all but the last \<open>- k\<close> elements.
\<close>

definition slice_to :: "int \<Rightarrow> 'a list \<Rightarrow> 'a list" where
  "slice_to k xs = (if 0 \<le> k then take (nat k) xs else take (nat (int (length xs) + k)) xs)"

text \<open>\<^verbatim>\<open>xs[idx]\<close> for an index array: the elements at these positions, in this order.\<close>

definition fancy_index :: "'a list \<Rightarrow> nat list \<Rightarrow> error + 'a list" where
  "fancy_index xs idx =
     (if list_all (\<lambda>i. i < length xs) idx then Inr (map (\<lambda>i. xs ! i) idx)
      else Inl IndexError)"

text \<open>
  \<^verbatim>\<open>np.mean\<close>: the sum divided by the number of elements. For an empty array NumPy
  warns and returns NaN, which is \<open>None\<close> here.
\<close>

definition np_mean :: "real list \<Rightarrow> real option" where
  "np_mean xs = (if xs = [] then None else Some (sum_list xs / real (length xs)))"

text \<open>A \<^verbatim>\<open>for\<close> loop that appends one result per element and stops at the first error.\<close>

fun for_each :: "('a \<Rightarrow> error + 'b) \<Rightarrow> 'a list \<Rightarrow> error + 'b list" where
  "for_each body [] = Inr []"
| "for_each body (x # xs) =
     (case body x of
        Inl e \<Rightarrow> Inl e
      | Inr y \<Rightarrow> (case for_each body xs of Inl e \<Rightarrow> Inl e | Inr ys \<Rightarrow> Inr (y # ys)))"

subsection \<open>The function\<close>

text \<open>Line 64: \<^verbatim>\<open>np.argsort(dist_matrix[test_index])[:num_neighbors]\<close>.\<close>

definition nearest_train_of :: "('fp, 'vec) library \<Rightarrow> int \<Rightarrow> real list \<Rightarrow> nat list" where
  "nearest_train_of L k dist_row = slice_to k (argsort L dist_row)"

text \<open>
  Lines 78 to 82, the body of the loop over \<^verbatim>\<open>enumerate(nearest_train)\<close>: the four
  entries of rank \<open>i + 1\<close>.
\<close>

definition train_group_of ::
  "string list \<Rightarrow> string set \<Rightarrow> real list \<Rightarrow> real list \<Rightarrow> nat \<times> nat \<Rightarrow> error + train_group" where
  "train_group_of train_sm antib nearest_train_vec_dists nearest_train_morgan_dists p =
     (case p of (i, train_index) \<Rightarrow>
        (case getitem train_sm train_index of
           Inl e \<Rightarrow> Inl e
         | Inr smiles \<Rightarrow>
        (case getitem nearest_train_vec_dists i of
           Inl e \<Rightarrow> Inl e
         | Inr vec_dist \<Rightarrow>
        (case getitem nearest_train_morgan_dists i of
           Inl e \<Rightarrow> Inl e
         | Inr morgan_dist \<Rightarrow>
             Inr \<lparr>col_train_smiles = smiles,
                  col_train_is_antibiotic = (smiles \<in> antib),
                  col_train_vec_cosine_dist = vec_dist,
                  col_train_morgan_jaccard_dist = morgan_dist\<rparr>))))"

text \<open>Lines 63 to 84, the body of the loop over the test molecules.\<close>

definition neighbor_of ::
  "('fp, 'vec) library \<Rightarrow> ('fp, 'vec) inputs \<Rightarrow> real list list \<Rightarrow> real list list \<Rightarrow>
     real list list \<Rightarrow> nat \<Rightarrow> error + neighbor" where
  "neighbor_of L inp dist_matrix test_train_vec_dist test_train_morgan_dist test_index =
     (case getitem dist_matrix test_index of
        Inl e \<Rightarrow> Inl e
      | Inr dist_row \<Rightarrow>
     (case getitem test_train_vec_dist test_index of
        Inl e \<Rightarrow> Inl e
      | Inr vec_row \<Rightarrow>
     (case fancy_index vec_row (nearest_train_of L (num_neighbors inp) dist_row) of
        Inl e \<Rightarrow> Inl e
      | Inr nearest_train_vec_dists \<Rightarrow>
     (case getitem test_train_morgan_dist test_index of
        Inl e \<Rightarrow> Inl e
      | Inr morgan_row \<Rightarrow>
     (case fancy_index morgan_row (nearest_train_of L (num_neighbors inp) dist_row) of
        Inl e \<Rightarrow> Inl e
      | Inr nearest_train_morgan_dists \<Rightarrow>
     (case getitem (test_smiles inp) test_index of
        Inl e \<Rightarrow> Inl e
      | Inr smiles \<Rightarrow>
     (case getitem (test_preds inp) test_index of
        Inl e \<Rightarrow> Inl e
      | Inr preds \<Rightarrow>
     (case getitem preds 0 of
        Inl e \<Rightarrow> Inl e
      | Inr pred \<Rightarrow>
     (case for_each
             (train_group_of (train_smiles inp) (antibiotics inp)
                nearest_train_vec_dists nearest_train_morgan_dists)
             (enumerate 0 (nearest_train_of L (num_neighbors inp) dist_row)) of
        Inl e \<Rightarrow> Inl e
      | Inr groups \<Rightarrow>
          Inr \<lparr>col_test_smiles = smiles,
               col_in_train = (smiles \<in> set (train_smiles inp)),
               col_test_pred = pred,
               col_avg_vec_cosine_dist = np_mean nearest_train_vec_dists,
               col_avg_morgan_jaccard_dist = np_mean nearest_train_morgan_dists,
               col_train = groups\<rparr>)))))))))"

text \<open>
  Line 87: \<^verbatim>\<open>neighbors.sort(key=..., reverse=True)\<close>. Python's sort is stable, also
  with \<^verbatim>\<open>reverse=True\<close>: elements with equal keys keep their order. That is the
  insertion sort of the library on the negated key.
\<close>

definition sort_by_test_pred :: "neighbor list \<Rightarrow> neighbor list" where
  "sort_by_test_pred neighbors = sort_key (\<lambda>n. - col_test_pred n) neighbors"

text \<open>
  Line 94: \<^verbatim>\<open>writer.writerow(neighbor)\<close>. The writer's field names are the keys of the
  first dictionary; \<^verbatim>\<open>csv.DictWriter\<close> raises a \<^verbatim>\<open>ValueError\<close> (whose message, cut
  short here, lists the keys) for a dictionary with a key that is not a field name. All
  dictionaries share their first five keys, so a dictionary has such a key exactly when
  it has more groups than the first one.
\<close>

definition writerow :: "neighbor \<Rightarrow> neighbor \<Rightarrow> error + neighbor" where
  "writerow first neighbor =
     (if length (col_train neighbor) \<le> length (col_train first) then Inr neighbor
      else Inl (ValueError ''dict contains fields not in fieldnames''))"

text \<open>
  Lines 49 to 94. The result is the list of the steps taken, and either the error that
  ended the run or the rows written to the file, in order. The header is taken from the
  keys of the first dictionary after the file has been opened.
\<close>

definition find_similar_preds ::
  "('fp, 'vec) library \<Rightarrow> ('fp, 'vec) inputs \<Rightarrow> event list \<times> (error + neighbor list)" where
  "find_similar_preds L inp =
     (case cdist (jaccard L) (test_morgans inp) (train_morgans inp) of
        Inl e \<Rightarrow> ([Cdist ''jaccard''], Inl e)
      | Inr test_train_morgan_dist \<Rightarrow>
     (case cdist (cosine L) (test_vecs inp) (train_vecs inp) of
        Inl e \<Rightarrow> ([Cdist ''jaccard'', Cdist ''cosine''], Inl e)
      | Inr test_train_vec_dist \<Rightarrow>
     (case (if distance_measure inp = ''vec'' then Inr test_train_vec_dist
            else if distance_measure inp = ''morgan'' then Inr test_train_morgan_dist
            else Inl (ValueError (''Distance measure \"'' @ distance_measure inp
                                   @ ''\" not supported.''))) of
        Inl e \<Rightarrow> ([Cdist ''jaccard'', Cdist ''cosine''], Inl e)
      | Inr dist_matrix \<Rightarrow>
     (case for_each (neighbor_of L inp dist_matrix test_train_vec_dist test_train_morgan_dist)
             [0..<length (test_smiles inp)] of
        Inl e \<Rightarrow> ([Cdist ''jaccard'', Cdist ''cosine''], Inl e)
      | Inr neighbors \<Rightarrow>
     (case getitem (sort_by_test_pred neighbors) 0 of
        Inl e \<Rightarrow> ([Cdist ''jaccard'', Cdist ''cosine'', Open_save_path], Inl e)
      | Inr first \<Rightarrow>
     (case for_each (writerow first) (sort_by_test_pred neighbors) of
        Inl e \<Rightarrow> ([Cdist ''jaccard'', Cdist ''cosine'', Open_save_path], Inl e)
      | Inr rows \<Rightarrow> ([Cdist ''jaccard'', Cdist ''cosine'', Open_save_path], Inr rows)))))))"

subsection \<open>Vocabulary of the properties\<close>

text \<open>
  The values of \<^verbatim>\<open>test_train_morgan_dist\<close>, \<^verbatim>\<open>test_train_vec_dist\<close> and
  \<^verbatim>\<open>dist_matrix\<close> on a run that gets past line 58, as functions of the input.
\<close>

definition morgan_matrix :: "('fp, 'vec) library \<Rightarrow> ('fp, 'vec) inputs \<Rightarrow> real list list" where
  "morgan_matrix L inp = map (\<lambda>a. map (jaccard L a) (train_morgans inp)) (test_morgans inp)"

definition vec_matrix :: "('fp, 'vec) library \<Rightarrow> ('fp, 'vec) inputs \<Rightarrow> real list list" where
  "vec_matrix L inp = map (\<lambda>a. map (cosine L a) (train_vecs inp)) (test_vecs inp)"

definition dist_matrix_of :: "('fp, 'vec) library \<Rightarrow> ('fp, 'vec) inputs \<Rightarrow> real list list" where
  "dist_matrix_of L inp =
     (if distance_measure inp = ''vec'' then vec_matrix L inp else morgan_matrix L inp)"

text \<open>The value of \<^verbatim>\<open>nearest_train\<close> in the iteration for test molecule \<open>i\<close>.\<close>

definition neighbor_set :: "('fp, 'vec) library \<Rightarrow> ('fp, 'vec) inputs \<Rightarrow> nat \<Rightarrow> nat list" where
  "neighbor_set L inp i = nearest_train_of L (num_neighbors inp) (dist_matrix_of L inp ! i)"

text \<open>The four entries that describe training molecule \<open>j\<close>, given the two rows of distances.\<close>

definition group_at :: "('fp, 'vec) inputs \<Rightarrow> real list \<Rightarrow> real list \<Rightarrow> nat \<Rightarrow> train_group" where
  "group_at inp vec_row morgan_row j =
     \<lparr>col_train_smiles = train_smiles inp ! j,
      col_train_is_antibiotic = (train_smiles inp ! j \<in> antibiotics inp),
      col_train_vec_cosine_dist = vec_row ! j,
      col_train_morgan_jaccard_dist = morgan_row ! j\<rparr>"

text \<open>
  The dictionary of test molecule \<open>i\<close> on a run in which no index is out of range,
  written with the matrices: the value that the loop body builds in lines 71 to 82.
\<close>

definition neighbor_row :: "('fp, 'vec) library \<Rightarrow> ('fp, 'vec) inputs \<Rightarrow> nat \<Rightarrow> neighbor" where
  "neighbor_row L inp i =
     \<lparr>col_test_smiles = test_smiles inp ! i,
      col_in_train = (test_smiles inp ! i \<in> set (train_smiles inp)),
      col_test_pred = test_preds inp ! i ! 0,
      col_avg_vec_cosine_dist =
        np_mean (map (\<lambda>j. vec_matrix L inp ! i ! j) (neighbor_set L inp i)),
      col_avg_morgan_jaccard_dist =
        np_mean (map (\<lambda>j. morgan_matrix L inp ! i ! j) (neighbor_set L inp i)),
      col_train =
        map (group_at inp (vec_matrix L inp ! i) (morgan_matrix L inp ! i))
          (neighbor_set L inp i)\<rparr>"

text \<open>
  What NumPy documents of \<^verbatim>\<open>np.argsort\<close>: the result holds every index of the array
  once, and reading the array in this order gives an ascending sequence. Nothing is
  promised about the order of indices with equal values unless a stable \<^verbatim>\<open>kind\<close> is
  requested, which the source does not do.
\<close>

definition argsort_spec :: "(real list \<Rightarrow> nat list) \<Rightarrow> bool" where
  "argsort_spec A \<longleftrightarrow>
     (\<forall>xs. mset (A xs) = mset [0..<length xs] \<and> sorted (map (\<lambda>i. xs ! i) (A xs)))"

text \<open>
  Two sorts that meet \<open>argsort_spec\<close>. The first is the stable one
  (\<^verbatim>\<open>kind='stable'\<close>), which puts the lower index first among equal values. The second
  is not stable: it is the stable sort on rows of at most 16 elements and puts the higher
  index first among equal values on longer rows. NumPy's default sort (an introsort, on
  some processors a vectorised quicksort) also moves equal values on long rows, since its
  partition step swaps them, in an order that depends on the build of NumPy; the second
  sort stands for this behaviour, not for the exact order.
\<close>

definition argsort_stable :: "real list \<Rightarrow> nat list" where
  "argsort_stable xs = sort_key (\<lambda>i. xs ! i) [0..<length xs]"

definition argsort_unstable :: "real list \<Rightarrow> nat list" where
  "argsort_unstable xs =
     (if length xs \<le> 16 then sort_key (\<lambda>i. xs ! i) [0..<length xs]
      else sort_key (\<lambda>i. xs ! i) (rev [0..<length xs]))"

text \<open>
  The parallel arrays of one data set have one length, and every test molecule has at
  least one prediction.
\<close>

definition aligned :: "('fp, 'vec) inputs \<Rightarrow> bool" where
  "aligned inp \<longleftrightarrow>
     length (test_morgans inp) = length (test_smiles inp) \<and>
     length (test_vecs inp) = length (test_smiles inp) \<and>
     length (test_preds inp) = length (test_smiles inp) \<and>
     list_all (\<lambda>preds. preds \<noteq> []) (test_preds inp) \<and>
     length (train_morgans inp) = length (train_smiles inp) \<and>
     length (train_vecs inp) = length (train_smiles inp)"

subsection \<open>A sample run\<close>

text \<open>
  Three test molecules, three training molecules, fingerprints and vectors stood in for
  by numbers whose difference is the distance.
\<close>

definition example_library :: "(real, real) library" where
  "example_library =
     \<lparr>jaccard = (\<lambda>a b. \<bar>a - b\<bar>), cosine = (\<lambda>a b. \<bar>a - b\<bar>), argsort = argsort_stable\<rparr>"

definition example_inputs :: "(real, real) inputs" where
  "example_inputs =
     \<lparr>test_smiles = [''CCO'', ''CCN'', ''CCC''],
      train_smiles = [''C'', ''CC'', ''CCO''],
      antibiotics = {''CC''},
      test_morgans = [0, 1, 3],
      train_morgans = [0, 2, 3],
      test_preds = [[0.2, 0.7], [0.9], [0.2]],
      test_vecs = [1, 5, 2],
      train_vecs = [3, 1, 3],
      distance_measure = ''morgan'',
      num_neighbors = 2\<rparr>"

definition example_report :: "neighbor list" where
  "example_report =
     [\<lparr>col_test_smiles = ''CCN'', col_in_train = False, col_test_pred = 9 / 10,
       col_avg_vec_cosine_dist = Some 3, col_avg_morgan_jaccard_dist = Some 1,
       col_train =
         [\<lparr>col_train_smiles = ''C'', col_train_is_antibiotic = False,
           col_train_vec_cosine_dist = 2, col_train_morgan_jaccard_dist = 1\<rparr>,
          \<lparr>col_train_smiles = ''CC'', col_train_is_antibiotic = True,
           col_train_vec_cosine_dist = 4, col_train_morgan_jaccard_dist = 1\<rparr>]\<rparr>,
      \<lparr>col_test_smiles = ''CCO'', col_in_train = True, col_test_pred = 1 / 5,
       col_avg_vec_cosine_dist = Some 1, col_avg_morgan_jaccard_dist = Some 1,
       col_train =
         [\<lparr>col_train_smiles = ''C'', col_train_is_antibiotic = False,
           col_train_vec_cosine_dist = 2, col_train_morgan_jaccard_dist = 0\<rparr>,
          \<lparr>col_train_smiles = ''CC'', col_train_is_antibiotic = True,
           col_train_vec_cosine_dist = 0, col_train_morgan_jaccard_dist = 2\<rparr>]\<rparr>,
      \<lparr>col_test_smiles = ''CCC'', col_in_train = False, col_test_pred = 1 / 5,
       col_avg_vec_cosine_dist = Some 1, col_avg_morgan_jaccard_dist = Some (1 / 2),
       col_train =
         [\<lparr>col_train_smiles = ''CCO'', col_train_is_antibiotic = False,
           col_train_vec_cosine_dist = 1, col_train_morgan_jaccard_dist = 0\<rparr>,
          \<lparr>col_train_smiles = ''CC'', col_train_is_antibiotic = True,
           col_train_vec_cosine_dist = 1, col_train_morgan_jaccard_dist = 1\<rparr>]\<rparr>]"

text \<open>The sample routines with the sort that is not stable.\<close>

definition unstable_library :: "(real, real) library" where
  "unstable_library = example_library\<lparr>argsort := argsort_unstable\<rparr>"

text \<open>The sample input with no test molecule, and with no training molecule.\<close>

definition empty_test_inputs :: "(real, real) inputs" where
  "empty_test_inputs =
     example_inputs\<lparr>test_smiles := [], test_morgans := [], test_preds := [], test_vecs := []\<rparr>"

definition empty_train_inputs :: "(real, real) inputs" where
  "empty_train_inputs =
     example_inputs\<lparr>train_smiles := [], train_morgans := [], train_vecs := []\<rparr>"

section \<open>Basic facts\<close>

subsection \<open>Indexing and loops\<close>

lemma getitem_Inr_iff: "getitem xs i = Inr x \<longleftrightarrow> i < length xs \<and> x = xs ! i"
  by (auto simp: getitem_def)

lemma fancy_index_Inr_iff:
  "fancy_index xs idx = Inr ys \<longleftrightarrow> (\<forall>i\<in>set idx. i < length xs) \<and> ys = map (\<lambda>i. xs ! i) idx"
  by (auto simp: fancy_index_def list_all_iff)

lemma set_slice_to: "set (slice_to k xs) \<subseteq> set xs"
  by (auto simp: slice_to_def dest: in_set_takeD)

lemma for_each_Inr_iff:
  "for_each body xs = Inr ys \<longleftrightarrow> list_all2 (\<lambda>x y. body x = Inr y) xs ys"
proof (induction xs arbitrary: ys)
  case Nil
  show ?case by auto
next
  case (Cons x xs)
  show ?case
    by (auto simp: list_all2_Cons1 Cons.IH [symmetric] split: sum.splits)
qed

lemma for_each_nth:
  assumes "for_each body xs = Inr ys"
  shows "length ys = length xs" and "\<And>k. k < length xs \<Longrightarrow> body (xs ! k) = Inr (ys ! k)"
  using assms by (auto simp: for_each_Inr_iff list_all2_conv_all_nth)

lemma for_each_total_aux:
  "\<forall>x\<in>set xs. \<exists>y. body x = Inr y \<Longrightarrow> \<exists>ys. for_each body xs = Inr ys"
  by (induction xs) (fastforce split: sum.splits)+

lemma for_each_total:
  assumes "\<And>x. x \<in> set xs \<Longrightarrow> \<exists>y. body x = Inr y"
  shows "\<exists>ys. for_each body xs = Inr ys"
  using assms by (intro for_each_total_aux) blast

lemma writerows_InrD:
  assumes "for_each (writerow first) xs = Inr ys"
  shows "ys = xs"
proof (rule nth_equalityI)
  show "length ys = length xs"
    by (rule for_each_nth(1) [OF assms])
next
  fix k assume "k < length ys"
  then have "writerow first (xs ! k) = Inr (ys ! k)"
    using for_each_nth [OF assms] by simp
  then show "ys ! k = xs ! k"
    by (simp add: writerow_def split: if_splits)
qed

lemma writerows_total:
  "\<forall>x\<in>set xs. length (col_train x) \<le> length (col_train first) \<Longrightarrow>
     for_each (writerow first) xs = Inr xs"
  by (induction xs) (simp_all add: writerow_def)

subsection \<open>The inner loop\<close>

lemma train_groups_InrD:
  assumes "for_each (train_group_of (train_smiles inp) (antibiotics inp)
                (map (\<lambda>j. vec_row ! j) sel) (map (\<lambda>j. morgan_row ! j) sel))
             (enumerate 0 sel) = Inr groups"
  shows "groups = map (group_at inp vec_row morgan_row) sel"
    and "\<And>j. j \<in> set sel \<Longrightarrow> j < length (train_smiles inp)"
proof -
  note fe = for_each_nth [OF assms]
  have len: "length groups = length sel"
    using fe(1) by simp
  have step: "train_group_of (train_smiles inp) (antibiotics inp)
                (map (\<lambda>j. vec_row ! j) sel) (map (\<lambda>j. morgan_row ! j) sel) (k, sel ! k)
              = Inr (groups ! k)" if "k < length sel" for k
    using fe(2) [of k] that by (simp add: nth_enumerate_eq)
  have at: "sel ! k < length (train_smiles inp)
            \<and> groups ! k = group_at inp vec_row morgan_row (sel ! k)"
    if "k < length sel" for k
    using step [OF that] that
    by (auto simp: train_group_of_def getitem_def group_at_def split: if_splits)
  show "groups = map (group_at inp vec_row morgan_row) sel"
    by (rule nth_equalityI) (simp_all add: len at)
  show "j < length (train_smiles inp)" if "j \<in> set sel" for j
    using that at by (auto simp: in_set_conv_nth)
qed

lemma train_groups_total:
  assumes "\<And>j. j \<in> set sel \<Longrightarrow> j < length (train_smiles inp)"
  shows "\<exists>groups. for_each (train_group_of (train_smiles inp) (antibiotics inp)
                (map (\<lambda>j. vec_row ! j) sel) (map (\<lambda>j. morgan_row ! j) sel))
             (enumerate 0 sel) = Inr groups"
proof (rule for_each_total)
  fix p assume "p \<in> set (enumerate 0 sel)"
  then obtain k where "k < length sel" "p = (k, sel ! k)"
    by (auto simp: in_set_enumerate_eq)
  then show "\<exists>y. train_group_of (train_smiles inp) (antibiotics inp)
                (map (\<lambda>j. vec_row ! j) sel) (map (\<lambda>j. morgan_row ! j) sel) p = Inr y"
    using assms [of "sel ! k"] by (simp add: train_group_of_def getitem_def)
qed

subsection \<open>One iteration of the outer loop\<close>

lemma neighbor_of_InrD:
  assumes "neighbor_of L inp D V G i = Inr n"
  defines "sel \<equiv> nearest_train_of L (num_neighbors inp) (D ! i)"
  shows "i < length D" "i < length V" "i < length G"
    and "i < length (test_smiles inp)" "i < length (test_preds inp)" "test_preds inp ! i \<noteq> []"
    and "\<And>j. j \<in> set sel \<Longrightarrow>
           j < length (V ! i) \<and> j < length (G ! i) \<and> j < length (train_smiles inp)"
    and "n = \<lparr>col_test_smiles = test_smiles inp ! i,
              col_in_train = (test_smiles inp ! i \<in> set (train_smiles inp)),
              col_test_pred = test_preds inp ! i ! 0,
              col_avg_vec_cosine_dist = np_mean (map (\<lambda>j. V ! i ! j) sel),
              col_avg_morgan_jaccard_dist = np_mean (map (\<lambda>j. G ! i ! j) sel),
              col_train = map (group_at inp (V ! i) (G ! i)) sel\<rparr>"
proof -
  from assms(1) obtain groups where
    b: "i < length D" "i < length V" "i < length G" "i < length (test_smiles inp)"
       "i < length (test_preds inp)" "0 < length (test_preds inp ! i)"
       "\<forall>j\<in>set sel. j < length (V ! i)" "\<forall>j\<in>set sel. j < length (G ! i)"
    and g: "for_each (train_group_of (train_smiles inp) (antibiotics inp)
                (map (\<lambda>j. V ! i ! j) sel) (map (\<lambda>j. G ! i ! j) sel))
             (enumerate 0 sel) = Inr groups"
    and n: "n = \<lparr>col_test_smiles = test_smiles inp ! i,
              col_in_train = (test_smiles inp ! i \<in> set (train_smiles inp)),
              col_test_pred = test_preds inp ! i ! 0,
              col_avg_vec_cosine_dist = np_mean (map (\<lambda>j. V ! i ! j) sel),
              col_avg_morgan_jaccard_dist = np_mean (map (\<lambda>j. G ! i ! j) sel),
              col_train = groups\<rparr>"
    unfolding neighbor_of_def sel_def
    by (auto simp: getitem_Inr_iff fancy_index_Inr_iff split: sum.splits)
  note tg = train_groups_InrD [OF g]
  show "i < length D" "i < length V" "i < length G"
    "i < length (test_smiles inp)" "i < length (test_preds inp)"
    using b by simp_all
  show "test_preds inp ! i \<noteq> []"
    using b(6) by auto
  show "j < length (V ! i) \<and> j < length (G ! i) \<and> j < length (train_smiles inp)"
    if "j \<in> set sel" for j
    using that b(7,8) tg(2) by simp
  show "n = \<lparr>col_test_smiles = test_smiles inp ! i,
              col_in_train = (test_smiles inp ! i \<in> set (train_smiles inp)),
              col_test_pred = test_preds inp ! i ! 0,
              col_avg_vec_cosine_dist = np_mean (map (\<lambda>j. V ! i ! j) sel),
              col_avg_morgan_jaccard_dist = np_mean (map (\<lambda>j. G ! i ! j) sel),
              col_train = map (group_at inp (V ! i) (G ! i)) sel\<rparr>"
    using n tg(1) by simp
qed

lemma neighbor_of_total:
  assumes "i < length D" "i < length V" "i < length G"
    and "i < length (test_smiles inp)" "i < length (test_preds inp)" "test_preds inp ! i \<noteq> []"
    and "\<And>j. j \<in> set (nearest_train_of L (num_neighbors inp) (D ! i)) \<Longrightarrow>
           j < length (V ! i) \<and> j < length (G ! i) \<and> j < length (train_smiles inp)"
  shows "\<exists>n. neighbor_of L inp D V G i = Inr n"
proof -
  let ?sel = "nearest_train_of L (num_neighbors inp) (D ! i)"
  obtain groups where g: "for_each (train_group_of (train_smiles inp) (antibiotics inp)
                (map (\<lambda>j. V ! i ! j) ?sel) (map (\<lambda>j. G ! i ! j) ?sel))
             (enumerate 0 ?sel) = Inr groups"
    using train_groups_total [of ?sel inp "V ! i" "G ! i"] assms(7) by blast
  have fv: "fancy_index (V ! i) ?sel = Inr (map (\<lambda>j. V ! i ! j) ?sel)"
    using assms(7) by (simp add: fancy_index_Inr_iff)
  have fg: "fancy_index (G ! i) ?sel = Inr (map (\<lambda>j. G ! i ! j) ?sel)"
    using assms(7) by (simp add: fancy_index_Inr_iff)
  have p0: "getitem (test_preds inp ! i) 0 = Inr (test_preds inp ! i ! 0)"
    using assms(6) by (simp add: getitem_def)
  show ?thesis
    unfolding neighbor_of_def
    using assms(1-6) by (simp add: getitem_def fv fg g)
qed

subsection \<open>A run that writes its rows\<close>

lemma find_similar_preds_InrD:
  assumes "snd (find_similar_preds L inp) = Inr report"
  obtains neighbors where
    "test_morgans inp \<noteq> []" "train_morgans inp \<noteq> []"
    "test_vecs inp \<noteq> []" "train_vecs inp \<noteq> []"
    "distance_measure inp = ''vec'' \<or> distance_measure inp = ''morgan''"
    "for_each (neighbor_of L inp (dist_matrix_of L inp) (vec_matrix L inp) (morgan_matrix L inp))
       [0..<length (test_smiles inp)] = Inr neighbors"
    "report = sort_by_test_pred neighbors"
    "fst (find_similar_preds L inp) = [Cdist ''jaccard'', Cdist ''cosine'', Open_save_path]"
  using assms
  unfolding find_similar_preds_def cdist_def dist_matrix_of_def vec_matrix_def morgan_matrix_def
  by (auto split: sum.splits if_splits dest: writerows_InrD)

lemma vec_matrix_nth:
  "i < length (test_vecs inp) \<Longrightarrow>
     vec_matrix L inp ! i = map (cosine L (test_vecs inp ! i)) (train_vecs inp)"
  by (simp add: vec_matrix_def)

lemma morgan_matrix_nth:
  "i < length (test_morgans inp) \<Longrightarrow>
     morgan_matrix L inp ! i = map (jaccard L (test_morgans inp ! i)) (train_morgans inp)"
  by (simp add: morgan_matrix_def)

lemma length_matrices [simp]:
  "length (vec_matrix L inp) = length (test_vecs inp)"
  "length (morgan_matrix L inp) = length (test_morgans inp)"
  by (simp_all add: vec_matrix_def morgan_matrix_def)

text \<open>
  On a run that writes its rows, the rows are the sorted list of the dictionaries of the
  test molecules.
\<close>

lemma run_report:
  assumes "snd (find_similar_preds L inp) = Inr report"
  shows "report = sort_by_test_pred (map (neighbor_row L inp) [0..<length (test_smiles inp)])"
proof -
  from assms obtain neighbors where
    fe: "for_each (neighbor_of L inp (dist_matrix_of L inp) (vec_matrix L inp) (morgan_matrix L inp))
           [0..<length (test_smiles inp)] = Inr neighbors"
    and rep: "report = sort_by_test_pred neighbors"
    by (rule find_similar_preds_InrD)
  note nth = for_each_nth [OF fe]
  have len: "length neighbors = length (test_smiles inp)"
    using nth(1) by simp
  have "neighbors = map (neighbor_row L inp) [0..<length (test_smiles inp)]"
  proof (rule nth_equalityI)
    show "length neighbors = length (map (neighbor_row L inp) [0..<length (test_smiles inp)])"
      using len by simp
  next
    fix i assume "i < length neighbors"
    then have i: "i < length (test_smiles inp)"
      using len by simp
    have "neighbor_of L inp (dist_matrix_of L inp) (vec_matrix L inp) (morgan_matrix L inp) i
            = Inr (neighbors ! i)"
      using nth(2) [of i] i by simp
    then have "neighbors ! i = neighbor_row L inp i"
      unfolding neighbor_row_def neighbor_set_def by (rule neighbor_of_InrD(8))
    then show "neighbors ! i = map (neighbor_row L inp) [0..<length (test_smiles inp)] ! i"
      using i by simp
  qed
  with rep show ?thesis
    by simp
qed

text \<open>On such a run every index that is read lies within its array.\<close>

lemma run_ranges:
  assumes "snd (find_similar_preds L inp) = Inr report" and "i < length (test_smiles inp)"
  shows "i < length (test_vecs inp)" "i < length (test_morgans inp)"
    "i < length (test_preds inp)" "test_preds inp ! i \<noteq> []"
    and "\<And>j. j \<in> set (neighbor_set L inp i) \<Longrightarrow>
       j < length (train_vecs inp) \<and> j < length (train_morgans inp) \<and>
       j < length (train_smiles inp)"
proof -
  from assms(1) obtain neighbors where
    fe: "for_each (neighbor_of L inp (dist_matrix_of L inp) (vec_matrix L inp) (morgan_matrix L inp))
           [0..<length (test_smiles inp)] = Inr neighbors"
    by (rule find_similar_preds_InrD)
  have at: "neighbor_of L inp (dist_matrix_of L inp) (vec_matrix L inp) (morgan_matrix L inp) i
              = Inr (neighbors ! i)"
    using for_each_nth(2) [OF fe, of i] assms(2) by simp
  show iv: "i < length (test_vecs inp)" and im: "i < length (test_morgans inp)"
    using neighbor_of_InrD(2,3) [OF at] by simp_all
  show "i < length (test_preds inp)" "test_preds inp ! i \<noteq> []"
    using neighbor_of_InrD(5,6) [OF at] by simp_all
  fix j assume j: "j \<in> set (neighbor_set L inp i)"
  have "j < length (vec_matrix L inp ! i) \<and> j < length (morgan_matrix L inp ! i)
          \<and> j < length (train_smiles inp)"
    using neighbor_of_InrD(7) [OF at] j unfolding neighbor_set_def by blast
  then show "j < length (train_vecs inp) \<and> j < length (train_morgans inp) \<and>
       j < length (train_smiles inp)"
    by (simp add: vec_matrix_nth [OF iv] morgan_matrix_nth [OF im])
qed

subsection \<open>Sorts that meet the contract of argsort\<close>

lemma argsort_stable_spec: "argsort_spec argsort_stable"
  by (simp add: argsort_spec_def argsort_stable_def)

lemma argsort_unstable_spec: "argsort_spec argsort_unstable"
  by (simp add: argsort_spec_def argsort_unstable_def)

lemma sort_key_equal_keys:
  assumes "\<And>x. x \<in> set xs \<Longrightarrow> f x = c"
  shows "sort_key f xs = xs"
proof (rule sort_key_id_if_sorted)
  have "map f xs = map (\<lambda>x. c) xs"
    using assms by (intro map_cong) simp_all
  then show "sorted (map f xs)"
    by (simp add: map_replicate_const)
qed

lemma argsort_stable_equal_row:
  "argsort_stable (replicate n c) = [0..<n]"
  unfolding argsort_stable_def by (rule sort_key_equal_keys [where c = c, THEN trans]) simp_all

lemma argsort_unstable_equal_row:
  assumes "16 < n"
  shows "argsort_unstable (replicate n c) = rev [0..<n]"
proof -
  have "sort_key (\<lambda>i. replicate n c ! i) (rev [0..<n]) = rev [0..<n]"
    by (rule sort_key_equal_keys [where c = c]) simp
  then show ?thesis
    using assms by (simp add: argsort_unstable_def)
qed

lemma rev_upt_neq:
  assumes "1 < n"
  shows "rev [0..<n] \<noteq> [0..<n]"
proof
  assume "rev [0..<n] = [0..<n]"
  then have "hd (rev [0..<n]) = hd [0..<n]"
    by simp
  then show False
    using assms by (simp add: hd_rev)
qed

lemma argsort_specD:
  assumes "argsort_spec A"
  shows "length (A xs) = length xs" "distinct (A xs)" "set (A xs) = {0..<length xs}"
    and "sorted (map (\<lambda>i. xs ! i) (A xs))"
proof -
  have m: "mset (A xs) = mset [0..<length xs]"
    and s: "sorted (map (\<lambda>i. xs ! i) (A xs))"
    using assms by (simp_all add: argsort_spec_def)
  show "length (A xs) = length xs"
    using mset_eq_length [OF m] by simp
  show "distinct (A xs)"
    using mset_eq_imp_distinct_iff [OF m] by simp
  show "set (A xs) = {0..<length xs}"
    using mset_eq_setD [OF m] by simp
  show "sorted (map (\<lambda>i. xs ! i) (A xs))"
    by (rule s)
qed

subsection \<open>The sample run\<close>

lemma example_run:
  "find_similar_preds example_library example_inputs
     = ([Cdist ''jaccard'', Cdist ''cosine'', Open_save_path], Inr example_report)"
  by code_simp

subsection \<open>Runs on aligned, non-empty data\<close>

text \<open>
  On aligned, non-empty data with a supported measure the run writes its rows, provided
  the selected indices are indices of training molecules and every test molecule gets
  the same number of them.
\<close>

lemma run_total:
  assumes "aligned inp" and "test_smiles inp \<noteq> []" and "train_smiles inp \<noteq> []"
    and "distance_measure inp = ''vec'' \<or> distance_measure inp = ''morgan''"
    and range: "\<And>i j. i < length (test_smiles inp) \<Longrightarrow> j \<in> set (neighbor_set L inp i) \<Longrightarrow>
                  j < length (train_smiles inp)"
    and count: "\<And>i. i < length (test_smiles inp) \<Longrightarrow> length (neighbor_set L inp i) = c"
  shows "\<exists>report. find_similar_preds L inp
           = ([Cdist ''jaccard'', Cdist ''cosine'', Open_save_path], Inr report)"
proof -
  have len: "length (test_morgans inp) = length (test_smiles inp)"
    "length (test_vecs inp) = length (test_smiles inp)"
    "length (test_preds inp) = length (test_smiles inp)"
    "length (train_morgans inp) = length (train_smiles inp)"
    "length (train_vecs inp) = length (train_smiles inp)"
    and preds: "\<And>i. i < length (test_smiles inp) \<Longrightarrow> test_preds inp ! i \<noteq> []"
    using assms(1) by (auto simp: aligned_def list_all_length)
  have ne: "test_morgans inp \<noteq> []" "test_vecs inp \<noteq> []"
    "train_morgans inp \<noteq> []" "train_vecs inp \<noteq> []"
    using len assms(2,3) by auto
  have "\<exists>n. neighbor_of L inp (dist_matrix_of L inp) (vec_matrix L inp) (morgan_matrix L inp) i
              = Inr n" if i: "i < length (test_smiles inp)" for i
  proof (rule neighbor_of_total)
    show "i < length (dist_matrix_of L inp)" "i < length (vec_matrix L inp)"
      "i < length (morgan_matrix L inp)" "i < length (test_smiles inp)"
      "i < length (test_preds inp)" "test_preds inp ! i \<noteq> []"
      using i len preds by (simp_all add: dist_matrix_of_def)
  next
    fix j assume "j \<in> set (nearest_train_of L (num_neighbors inp) (dist_matrix_of L inp ! i))"
    then have "j < length (train_smiles inp)"
      using range [OF i, of j] by (simp add: neighbor_set_def)
    then show "j < length (vec_matrix L inp ! i) \<and> j < length (morgan_matrix L inp ! i)
                 \<and> j < length (train_smiles inp)"
      using i len by (simp add: vec_matrix_nth morgan_matrix_nth)
  qed
  then obtain neighbors where
    fe: "for_each (neighbor_of L inp (dist_matrix_of L inp) (vec_matrix L inp) (morgan_matrix L inp))
           [0..<length (test_smiles inp)] = Inr neighbors"
    using for_each_total
      [of "[0..<length (test_smiles inp)]"
          "neighbor_of L inp (dist_matrix_of L inp) (vec_matrix L inp) (morgan_matrix L inp)"]
    by fastforce
  note nth = for_each_nth [OF fe]
  have nlen: "length neighbors = length (test_smiles inp)"
    using nth(1) by simp
  then have first: "getitem (sort_by_test_pred neighbors) 0 = Inr (sort_by_test_pred neighbors ! 0)"
    using assms(2) by (simp add: getitem_def sort_by_test_pred_def)
  have groups: "length (col_train n) = c" if "n \<in> set neighbors" for n
  proof -
    from that obtain i where i: "i < length (test_smiles inp)" and n: "n = neighbors ! i"
      using nlen by (auto simp: in_set_conv_nth)
    have at: "neighbor_of L inp (dist_matrix_of L inp) (vec_matrix L inp) (morgan_matrix L inp) i
            = Inr n"
      using nth(2) [of i] i n by simp
    have "col_train n
                 = map (group_at inp (vec_matrix L inp ! i) (morgan_matrix L inp ! i))
                     (neighbor_set L inp i)"
      unfolding neighbor_set_def by (subst neighbor_of_InrD(8) [OF at]) simp
    then show ?thesis
      using count [OF i] by simp
  qed
  have "sort_by_test_pred neighbors ! 0 \<in> set neighbors"
    using nlen assms(2) nth_mem [of 0 "sort_by_test_pred neighbors"]
    by (simp add: sort_by_test_pred_def)
  then have "\<forall>n\<in>set (sort_by_test_pred neighbors).
               length (col_train n) \<le> length (col_train (sort_by_test_pred neighbors ! 0))"
    using groups by (simp add: sort_by_test_pred_def)
  then have rows: "for_each (writerow (sort_by_test_pred neighbors ! 0)) (sort_by_test_pred neighbors)
                     = Inr (sort_by_test_pred neighbors)"
    by (rule writerows_total)
  have cj: "cdist (jaccard L) (test_morgans inp) (train_morgans inp) = Inr (morgan_matrix L inp)"
    using ne by (simp add: cdist_def morgan_matrix_def)
  have cc: "cdist (cosine L) (test_vecs inp) (train_vecs inp) = Inr (vec_matrix L inp)"
    using ne by (simp add: cdist_def vec_matrix_def)
  from assms(4) show ?thesis
  proof
    assume m: "distance_measure inp = ''vec''"
    then have "dist_matrix_of L inp = vec_matrix L inp"
      by (simp add: dist_matrix_of_def)
    with fe first rows m show ?thesis
      by (simp add: find_similar_preds_def cj cc)
  next
    assume m: "distance_measure inp = ''morgan''"
    then have "dist_matrix_of L inp = morgan_matrix L inp"
      by (simp add: dist_matrix_of_def)
    with fe first rows m show ?thesis
      by (simp add: find_similar_preds_def cj cc)
  qed
qed

section \<open>The neighbor selection\<close>

text \<open>
  Claim C1, as stated: for every row the selection returns the \<open>K\<close> indices of smallest
  distance, ascending by distance, and among equal distances the lower index first. The
  last part does not follow from the code: it calls \<^verbatim>\<open>np.argsort\<close> with the default
  sort, which is not stable. On a row of 1001 equal distances with \<open>K = 1001\<close> the claim
  demands the indices 0 to 1000 in ascending order; a sort that meets the contract of
  \<^verbatim>\<open>np.argsort\<close> and, like NumPy's default sort, moves equal values on a row of this
  length selects them in another order.
\<close>

theorem nearest_train_tie_counterexample:
  "argsort_spec (argsort unstable_library)
   \<and> take 1001 (argsort_stable (replicate 1001 1)) = [0..<1001]
   \<and> nearest_train_of unstable_library 1001 (replicate 1001 1) \<noteq> [0..<1001]"
proof -
  have "argsort_spec (argsort unstable_library)"
    by (simp add: unstable_library_def argsort_unstable_spec)
  moreover have "take 1001 (argsort_stable (replicate 1001 1)) = [0..<1001]"
    by (simp add: argsort_stable_equal_row)
  moreover have "nearest_train_of unstable_library 1001 (replicate 1001 1) = rev [0..<1001]"
    by (simp add: nearest_train_of_def slice_to_def unstable_library_def
        argsort_unstable_equal_row)
  moreover have "rev [0..<1001] \<noteq> [0..<(1001::nat)]"
    by (rule rev_upt_neq) simp
  ultimately show ?thesis
    by simp
qed

text \<open>
  Claim C1, amended: for a positive \<open>K\<close> the selection returns \<open>min K n\<close> different indices
  of the row (\<open>n\<close> its length), ascending by distance, and no index left out is nearer
  than a selected one. The order among equal distances is the one of the sort that
  \<^verbatim>\<open>np.argsort\<close> runs.
\<close>

theorem nearest_train_smallest:
  assumes "argsort_spec (argsort L)" and "0 < k"
  shows "length (nearest_train_of L k row) = min (nat k) (length row)
         \<and> distinct (nearest_train_of L k row)
         \<and> set (nearest_train_of L k row) \<subseteq> {0..<length row}
         \<and> sorted (map (\<lambda>j. row ! j) (nearest_train_of L k row))
         \<and> (\<forall>s\<in>set (nearest_train_of L k row). \<forall>j<length row.
               j \<notin> set (nearest_train_of L k row) \<longrightarrow> row ! s \<le> row ! j)"
proof -
  let ?A = "argsort L row"
  let ?sel = "take (nat k) ?A"
  note A = argsort_specD [OF assms(1), of row]
  have sel: "nearest_train_of L k row = ?sel"
    using assms(2) by (simp add: nearest_train_of_def slice_to_def)
  have split: "?A = ?sel @ drop (nat k) ?A"
    by simp
  have srt: "sorted (map (\<lambda>j. row ! j) ?sel @ map (\<lambda>j. row ! j) (drop (nat k) ?A))"
    using A(4) by (simp only: map_append [symmetric] append_take_drop_id)
  have "length ?sel = min (nat k) (length row)"
    using A(1) by (simp add: min.commute)
  moreover have "distinct ?sel"
    using A(2) by simp
  moreover have "set ?sel \<subseteq> {0..<length row}"
    using set_take_subset [of "nat k" ?A] A(3) by simp
  moreover have "sorted (map (\<lambda>j. row ! j) ?sel)"
    using srt by (simp only: sorted_append)
  moreover have "row ! s \<le> row ! j"
    if "s \<in> set ?sel" "j < length row" "j \<notin> set ?sel" for s j
  proof -
    have "j \<in> set ?A"
      using that(2) A(3) by simp
    then have "j \<in> set ?sel \<union> set (drop (nat k) ?A)"
      by (simp only: set_append [symmetric] append_take_drop_id)
    then have "j \<in> set (drop (nat k) ?A)"
      using that(3) by blast
    then show ?thesis
      using srt that(1) unfolding sorted_append by auto
  qed
  ultimately show ?thesis
    unfolding sel by blast
qed

theorem nearest_train_smallest_witness:
  "argsort_spec (argsort example_library) \<and> (0::int) < 2
   \<and> length (nearest_train_of example_library 2 [3, 1, 2]) = 2
   \<and> distinct (nearest_train_of example_library 2 [3, 1, 2])"
proof -
  have a: "argsort_spec (argsort example_library)"
    by (simp add: example_library_def argsort_stable_spec)
  have k: "(0::int) < 2"
    by simp
  show ?thesis
    using nearest_train_smallest [OF a k, of "[3, 1, 2]"] a by simp
qed

section \<open>Inputs that end the run with an error\<close>

text \<open>
  Claim C2, as stated: an empty query set is a valid input, and the run completes with an
  empty report. On the sample input with no test molecule the run ends in the first call
  of \<^verbatim>\<open>cdist\<close>, which rejects the empty array, and nothing is written.
\<close>

theorem empty_query_counterexample:
  "find_similar_preds example_library empty_test_inputs
     = ([Cdist ''jaccard''], Inl (ValueError ''XA must be a 2-dimensional array.''))"
  by code_simp

text \<open>
  Claim C2, amended: an empty query set is not accepted. The run ends with the
  \<^verbatim>\<open>ValueError\<close> of the first distance computation, before any selection, and the
  output file is not opened.
\<close>

theorem empty_query_raises:
  assumes "test_smiles inp = []" and "length (test_morgans inp) = length (test_smiles inp)"
  shows "find_similar_preds L inp
           = ([Cdist ''jaccard''], Inl (ValueError ''XA must be a 2-dimensional array.''))"
  using assms by (simp add: find_similar_preds_def cdist_def)

theorem empty_query_raises_witness:
  "test_smiles (empty_test_inputs\<lparr>distance_measure := ''vec''\<rparr>) = []
   \<and> length (test_morgans (empty_test_inputs\<lparr>distance_measure := ''vec''\<rparr>))
       = length (test_smiles (empty_test_inputs\<lparr>distance_measure := ''vec''\<rparr>))
   \<and> snd (find_similar_preds example_library (empty_test_inputs\<lparr>distance_measure := ''vec''\<rparr>))
       = Inl (ValueError ''XA must be a 2-dimensional array.'')"
proof -
  have a: "test_smiles (empty_test_inputs\<lparr>distance_measure := ''vec''\<rparr>) = []"
    by (simp add: empty_test_inputs_def)
  have b: "length (test_morgans (empty_test_inputs\<lparr>distance_measure := ''vec''\<rparr>))
       = length (test_smiles (empty_test_inputs\<lparr>distance_measure := ''vec''\<rparr>))"
    by (simp add: empty_test_inputs_def)
  show ?thesis
    using empty_query_raises [OF a b, of example_library] a b by simp
qed

text \<open>
  Claim C3, as stated: an unsupported distance measure is reported before any distance
  computation begins. In \<^verbatim>\<open>find_similar_preds\<close> the test of the measure (lines 53 to
  58) comes after both calls of \<^verbatim>\<open>cdist\<close> (lines 50 and 51): on the sample input with
  the measure \<^verbatim>\<open>tanimoto\<close> both matrices are computed before the error is raised.
\<close>

theorem unsupported_measure_counterexample:
  "find_similar_preds example_library (example_inputs\<lparr>distance_measure := ''tanimoto''\<rparr>)
     = ([Cdist ''jaccard'', Cdist ''cosine''],
        Inl (ValueError ''Distance measure \"tanimoto\" not supported.''))"
  by code_simp

text \<open>
  Claim C3, amended: for a distance measure other than \<^verbatim>\<open>vec\<close> and \<^verbatim>\<open>morgan\<close> the run
  ends with an error and never opens the output file; when both distance computations
  succeed, the error is the \<^verbatim>\<open>ValueError\<close> that names the measure, raised after the two
  matrices have been computed and before any neighbor is selected. (Only the command
  line rejects such a name earlier, through the \<^verbatim>\<open>choices\<close> of its argument parser.)
\<close>

theorem unsupported_measure_raises:
  assumes "distance_measure inp \<noteq> ''vec''" and "distance_measure inp \<noteq> ''morgan''"
  shows "(\<exists>e. snd (find_similar_preds L inp) = Inl e)
         \<and> Open_save_path \<notin> set (fst (find_similar_preds L inp))
         \<and> (test_morgans inp \<noteq> [] \<and> train_morgans inp \<noteq> []
              \<and> test_vecs inp \<noteq> [] \<and> train_vecs inp \<noteq> [] \<longrightarrow>
            find_similar_preds L inp
              = ([Cdist ''jaccard'', Cdist ''cosine''],
                 Inl (ValueError (''Distance measure \"'' @ distance_measure inp
                                    @ ''\" not supported.''))))"
  using assms by (simp add: find_similar_preds_def cdist_def)

theorem unsupported_measure_raises_witness:
  "distance_measure (example_inputs\<lparr>distance_measure := ''cosine''\<rparr>) \<noteq> ''vec''
   \<and> distance_measure (example_inputs\<lparr>distance_measure := ''cosine''\<rparr>) \<noteq> ''morgan''
   \<and> Open_save_path
       \<notin> set (fst (find_similar_preds example_library
                      (example_inputs\<lparr>distance_measure := ''cosine''\<rparr>)))"
proof -
  have a: "distance_measure (example_inputs\<lparr>distance_measure := ''cosine''\<rparr>) \<noteq> ''vec''"
    by simp
  have b: "distance_measure (example_inputs\<lparr>distance_measure := ''cosine''\<rparr>) \<noteq> ''morgan''"
    by simp
  show ?thesis
    using unsupported_measure_raises [OF a b, of example_library] a b by blast
qed

text \<open>
  Claim C5: with an empty reference set and a positive number of neighbors the run ends
  with an error and produces no report. The error is the \<^verbatim>\<open>ValueError\<close> with which the
  first call of \<^verbatim>\<open>cdist\<close> rejects an empty array; no neighbor is selected and the
  output file is not opened.
\<close>

theorem empty_reference_raises:
  assumes "train_smiles inp = []" and "length (train_morgans inp) = length (train_smiles inp)"
    and "0 < num_neighbors inp"
  shows "find_similar_preds L inp
           = ([Cdist ''jaccard''],
              Inl (ValueError (if test_morgans inp = [] then ''XA must be a 2-dimensional array.''
                               else ''XB must be a 2-dimensional array.'')))"
  using assms by (simp add: find_similar_preds_def cdist_def)

theorem empty_reference_raises_witness:
  "train_smiles empty_train_inputs = []
   \<and> length (train_morgans empty_train_inputs) = length (train_smiles empty_train_inputs)
   \<and> 0 < num_neighbors empty_train_inputs
   \<and> find_similar_preds example_library empty_train_inputs
       = ([Cdist ''jaccard''], Inl (ValueError ''XB must be a 2-dimensional array.''))"
proof -
  have a: "train_smiles empty_train_inputs = []"
    by (simp add: empty_train_inputs_def)
  have b: "length (train_morgans empty_train_inputs) = length (train_smiles empty_train_inputs)"
    by (simp add: empty_train_inputs_def)
  have c: "0 < num_neighbors empty_train_inputs"
    by (simp add: empty_train_inputs_def example_inputs_def)
  have d: "test_morgans empty_train_inputs \<noteq> []"
    by (simp add: empty_train_inputs_def example_inputs_def)
  show ?thesis
    using empty_reference_raises [OF a b c, of example_library] a b c d by simp
qed

section \<open>The report\<close>

text \<open>
  Claim C6: the rows written are sorted by prediction, descending: of two adjacent rows
  the later one has no greater \<^verbatim>\<open>test_pred\<close>. Rows with equal prediction keep the order
  of their test molecules in the input: for every score, the rows with this score are, in
  this order, the dictionaries of the test molecules with this score in input order.
\<close>

theorem report_sorted_by_test_pred:
  assumes "snd (find_similar_preds L inp) = Inr report"
  shows "(\<forall>i. Suc i < length report \<longrightarrow>
            col_test_pred (report ! Suc i) \<le> col_test_pred (report ! i))
         \<and> (\<exists>neighbors.
               length neighbors = length (test_smiles inp)
               \<and> (\<forall>i<length (test_smiles inp).
                     col_test_smiles (neighbors ! i) = test_smiles inp ! i
                     \<and> col_test_pred (neighbors ! i) = test_preds inp ! i ! 0)
               \<and> (\<forall>s. filter (\<lambda>n. col_test_pred n = s) report
                          = filter (\<lambda>n. col_test_pred n = s) neighbors))"
proof -
  define neighbors where "neighbors = map (neighbor_row L inp) [0..<length (test_smiles inp)]"
  have rep: "report = sort_key (\<lambda>n. - col_test_pred n) neighbors"
    using run_report [OF assms] by (simp add: neighbors_def sort_by_test_pred_def)
  have len: "length neighbors = length (test_smiles inp)"
    by (simp add: neighbors_def)
  have ident: "col_test_smiles (neighbors ! i) = test_smiles inp ! i
                 \<and> col_test_pred (neighbors ! i) = test_preds inp ! i ! 0"
    if "i < length (test_smiles inp)" for i
    using that by (simp add: neighbors_def neighbor_row_def)
  have srt: "sorted (map (\<lambda>n. - col_test_pred n) report)"
    unfolding rep by (rule sorted_sort_key)
  have adj: "col_test_pred (report ! Suc i) \<le> col_test_pred (report ! i)"
    if "Suc i < length report" for i
  proof -
    have "map (\<lambda>n. - col_test_pred n) report ! i \<le> map (\<lambda>n. - col_test_pred n) report ! Suc i"
      using srt that by (intro sorted_nth_mono) simp_all
    then show ?thesis
      using that by simp
  qed
  have stable: "filter (\<lambda>n. col_test_pred n = s) report
                  = filter (\<lambda>n. col_test_pred n = s) neighbors" for s
    using sort_key_stable [of "\<lambda>n. - col_test_pred n" "- s" neighbors]
    by (simp add: rep)
  show ?thesis
    using adj len ident stable by blast
qed

theorem report_sorted_by_test_pred_witness:
  "snd (find_similar_preds example_library example_inputs) = Inr example_report
   \<and> col_test_pred (example_report ! Suc 0) \<le> col_test_pred (example_report ! 0)
   \<and> col_test_pred (example_report ! Suc 1) \<le> col_test_pred (example_report ! 1)"
proof -
  have a: "snd (find_similar_preds example_library example_inputs) = Inr example_report"
    by (simp add: example_run)
  have l: "length example_report = 3"
    by (simp add: example_report_def)
  show ?thesis
    using report_sorted_by_test_pred [OF a] a l by simp
qed

text \<open>
  Claim C10: the \<^verbatim>\<open>test_pred\<close> of the dictionary of a test molecule, which is also the
  key of the final sort, is the first component of the molecule's prediction. Further
  components are ignored: cutting every prediction down to its first component changes
  nothing in the run.
\<close>

theorem test_pred_is_first_prediction:
  "find_similar_preds L (inp\<lparr>test_preds := map (take 1) (test_preds inp)\<rparr>)
     = find_similar_preds L inp
   \<and> (\<forall>report. snd (find_similar_preds L inp) = Inr report \<longrightarrow>
        (\<exists>neighbors.
           length neighbors = length (test_smiles inp)
           \<and> report = sort_key (\<lambda>n. - col_test_pred n) neighbors
           \<and> (\<forall>i<length (test_smiles inp).
                 col_test_smiles (neighbors ! i) = test_smiles inp ! i
                 \<and> col_test_pred (neighbors ! i) = test_preds inp ! i ! 0)))"
proof
  let ?inp' = "inp\<lparr>test_preds := map (take 1) (test_preds inp)\<rparr>"
  have body: "neighbor_of L ?inp' D V G i = neighbor_of L inp D V G i" for D V G i
    unfolding neighbor_of_def
    by (simp add: getitem_def cong del: sum.case_cong_weak)
  have loop: "neighbor_of L ?inp' D V G = neighbor_of L inp D V G" for D V G
    by (rule ext) (rule body)
  show "find_similar_preds L ?inp' = find_similar_preds L inp"
    unfolding find_similar_preds_def loop
    by (simp cong del: sum.case_cong_weak if_weak_cong)
next
  show "\<forall>report. snd (find_similar_preds L inp) = Inr report \<longrightarrow>
        (\<exists>neighbors.
           length neighbors = length (test_smiles inp)
           \<and> report = sort_key (\<lambda>n. - col_test_pred n) neighbors
           \<and> (\<forall>i<length (test_smiles inp).
                 col_test_smiles (neighbors ! i) = test_smiles inp ! i
                 \<and> col_test_pred (neighbors ! i) = test_preds inp ! i ! 0))"
  proof (intro allI impI)
    fix report assume run: "snd (find_similar_preds L inp) = Inr report"
    define neighbors where "neighbors = map (neighbor_row L inp) [0..<length (test_smiles inp)]"
    have rep: "report = sort_key (\<lambda>n. - col_test_pred n) neighbors"
      using run_report [OF run] by (simp add: neighbors_def sort_by_test_pred_def)
    have len: "length neighbors = length (test_smiles inp)"
      by (simp add: neighbors_def)
    have "col_test_smiles (neighbors ! i) = test_smiles inp ! i
            \<and> col_test_pred (neighbors ! i) = test_preds inp ! i ! 0"
      if "i < length (test_smiles inp)" for i
      using that by (simp add: neighbors_def neighbor_row_def)
    with len rep show "\<exists>neighbors.
           length neighbors = length (test_smiles inp)
           \<and> report = sort_key (\<lambda>n. - col_test_pred n) neighbors
           \<and> (\<forall>i<length (test_smiles inp).
                 col_test_smiles (neighbors ! i) = test_smiles inp ! i
                 \<and> col_test_pred (neighbors ! i) = test_preds inp ! i ! 0)"
      by blast
  qed
qed

theorem test_pred_is_first_prediction_witness:
  "snd (find_similar_preds example_library example_inputs) = Inr example_report
   \<and> find_similar_preds example_library
       (example_inputs\<lparr>test_preds := map (take 1) (test_preds example_inputs)\<rparr>)
     = ([Cdist ''jaccard'', Cdist ''cosine'', Open_save_path], Inr example_report)"
proof -
  have a: "snd (find_similar_preds example_library example_inputs) = Inr example_report"
    by (simp add: example_run)
  show ?thesis
    using test_pred_is_first_prediction [of example_library example_inputs] a
    by (simp add: example_run)
qed

text \<open>
  Claim C7: in the dictionary of every test molecule \<open>i\<close>, the average of the vector
  distances is the sum of the entries of the vector distance matrix at row \<open>i\<close> and the
  selected columns divided by their number, and the average of the fingerprint distances
  is the same mean over the fingerprint distance matrix, whichever measure made the
  selection. (With no neighbor selected both are NaN.) The rows written are these
  dictionaries, reordered.
\<close>

theorem averages_are_means:
  assumes "snd (find_similar_preds L inp) = Inr report"
  shows "\<exists>neighbors.
           length neighbors = length (test_smiles inp) \<and> mset report = mset neighbors
           \<and> (\<forall>i<length (test_smiles inp).
                 col_test_smiles (neighbors ! i) = test_smiles inp ! i
                 \<and> col_avg_vec_cosine_dist (neighbors ! i)
                     = (if neighbor_set L inp i = [] then None
                        else Some ((\<Sum>j\<leftarrow>neighbor_set L inp i. vec_matrix L inp ! i ! j)
                                     / real (length (neighbor_set L inp i))))
                 \<and> col_avg_morgan_jaccard_dist (neighbors ! i)
                     = (if neighbor_set L inp i = [] then None
                        else Some ((\<Sum>j\<leftarrow>neighbor_set L inp i. morgan_matrix L inp ! i ! j)
                                     / real (length (neighbor_set L inp i)))))"
proof -
  define neighbors where "neighbors = map (neighbor_row L inp) [0..<length (test_smiles inp)]"
  have "mset report = mset neighbors"
    using run_report [OF assms] by (simp add: neighbors_def sort_by_test_pred_def)
  moreover have "length neighbors = length (test_smiles inp)"
    by (simp add: neighbors_def)
  moreover have "col_test_smiles (neighbors ! i) = test_smiles inp ! i
      \<and> col_avg_vec_cosine_dist (neighbors ! i)
          = (if neighbor_set L inp i = [] then None
             else Some ((\<Sum>j\<leftarrow>neighbor_set L inp i. vec_matrix L inp ! i ! j)
                          / real (length (neighbor_set L inp i))))
      \<and> col_avg_morgan_jaccard_dist (neighbors ! i)
          = (if neighbor_set L inp i = [] then None
             else Some ((\<Sum>j\<leftarrow>neighbor_set L inp i. morgan_matrix L inp ! i ! j)
                          / real (length (neighbor_set L inp i))))"
    if "i < length (test_smiles inp)" for i
    using that by (simp add: neighbors_def neighbor_row_def np_mean_def)
  ultimately show ?thesis
    by blast
qed

theorem averages_are_means_witness:
  "snd (find_similar_preds example_library example_inputs) = Inr example_report
   \<and> length example_report = length (test_smiles example_inputs)"
proof -
  have a: "snd (find_similar_preds example_library example_inputs) = Inr example_report"
    by (simp add: example_run)
  from averages_are_means [OF a] obtain neighbors where
    "length neighbors = length (test_smiles example_inputs)"
    and "mset example_report = mset neighbors"
    by blast
  then have "length example_report = length (test_smiles example_inputs)"
    using mset_eq_length by fastforce
  with a show ?thesis
    by simp
qed

text \<open>
  Claim C9: in the dictionary of every test molecule \<open>i\<close> there is one group of four
  entries per selected index, in selection order, and the group at rank \<open>r\<close> describes the
  \<open>r\<close>-th selected training molecule \<open>j\<close> in all four entries: its SMILES string, whether
  that string is an antibiotic, and the entries of the two distance matrices at
  \<open>(i, j)\<close>, which are the distances of test molecule \<open>i\<close> to training molecule \<open>j\<close>.
\<close>

theorem train_groups_follow_selection:
  assumes "snd (find_similar_preds L inp) = Inr report"
  shows "\<exists>neighbors.
           length neighbors = length (test_smiles inp) \<and> mset report = mset neighbors
           \<and> (\<forall>i<length (test_smiles inp).
                 col_test_smiles (neighbors ! i) = test_smiles inp ! i
                 \<and> length (col_train (neighbors ! i)) = length (neighbor_set L inp i)
                 \<and> (\<forall>r<length (neighbor_set L inp i).
                       neighbor_set L inp i ! r < length (train_smiles inp)
                       \<and> col_train (neighbors ! i) ! r
                           = \<lparr>col_train_smiles = train_smiles inp ! (neighbor_set L inp i ! r),
                              col_train_is_antibiotic =
                                (train_smiles inp ! (neighbor_set L inp i ! r) \<in> antibiotics inp),
                              col_train_vec_cosine_dist =
                                vec_matrix L inp ! i ! (neighbor_set L inp i ! r),
                              col_train_morgan_jaccard_dist =
                                morgan_matrix L inp ! i ! (neighbor_set L inp i ! r)\<rparr>
                       \<and> vec_matrix L inp ! i ! (neighbor_set L inp i ! r)
                           = cosine L (test_vecs inp ! i)
                               (train_vecs inp ! (neighbor_set L inp i ! r))
                       \<and> morgan_matrix L inp ! i ! (neighbor_set L inp i ! r)
                           = jaccard L (test_morgans inp ! i)
                               (train_morgans inp ! (neighbor_set L inp i ! r))))"
proof -
  define neighbors where "neighbors = map (neighbor_row L inp) [0..<length (test_smiles inp)]"
  have "mset report = mset neighbors"
    using run_report [OF assms] by (simp add: neighbors_def sort_by_test_pred_def)
  moreover have "length neighbors = length (test_smiles inp)"
    by (simp add: neighbors_def)
  moreover have "col_test_smiles (neighbors ! i) = test_smiles inp ! i
                 \<and> length (col_train (neighbors ! i)) = length (neighbor_set L inp i)
                 \<and> (\<forall>r<length (neighbor_set L inp i).
                       neighbor_set L inp i ! r < length (train_smiles inp)
                       \<and> col_train (neighbors ! i) ! r
                           = \<lparr>col_train_smiles = train_smiles inp ! (neighbor_set L inp i ! r),
                              col_train_is_antibiotic =
                                (train_smiles inp ! (neighbor_set L inp i ! r) \<in> antibiotics inp),
                              col_train_vec_cosine_dist =
                                vec_matrix L inp ! i ! (neighbor_set L inp i ! r),
                              col_train_morgan_jaccard_dist =
                                morgan_matrix L inp ! i ! (neighbor_set L inp i ! r)\<rparr>
                       \<and> vec_matrix L inp ! i ! (neighbor_set L inp i ! r)
                           = cosine L (test_vecs inp ! i)
                               (train_vecs inp ! (neighbor_set L inp i ! r))
                       \<and> morgan_matrix L inp ! i ! (neighbor_set L inp i ! r)
                           = jaccard L (test_morgans inp ! i)
                               (train_morgans inp ! (neighbor_set L inp i ! r)))"
    if i: "i < length (test_smiles inp)" for i
  proof -
    note rg = run_ranges [OF assms i]
    have row: "neighbors ! i = neighbor_row L inp i"
      using i by (simp add: neighbors_def)
    have at: "neighbor_set L inp i ! r < length (train_smiles inp)
              \<and> col_train (neighbors ! i) ! r
                  = group_at inp (vec_matrix L inp ! i) (morgan_matrix L inp ! i)
                      (neighbor_set L inp i ! r)
              \<and> vec_matrix L inp ! i ! (neighbor_set L inp i ! r)
                  = cosine L (test_vecs inp ! i) (train_vecs inp ! (neighbor_set L inp i ! r))
              \<and> morgan_matrix L inp ! i ! (neighbor_set L inp i ! r)
                  = jaccard L (test_morgans inp ! i)
                      (train_morgans inp ! (neighbor_set L inp i ! r))"
      if r: "r < length (neighbor_set L inp i)" for r
    proof -
      have "neighbor_set L inp i ! r \<in> set (neighbor_set L inp i)"
        using r by simp
      then have j: "neighbor_set L inp i ! r < length (train_vecs inp)"
        "neighbor_set L inp i ! r < length (train_morgans inp)"
        "neighbor_set L inp i ! r < length (train_smiles inp)"
        using rg(5) by blast+
      show ?thesis
        using j r by (simp add: row neighbor_row_def vec_matrix_nth [OF rg(1)]
            morgan_matrix_nth [OF rg(2)])
    qed
    show ?thesis
      using at by (simp add: row neighbor_row_def group_at_def)
  qed
  ultimately show ?thesis
    by blast
qed

theorem train_groups_follow_selection_witness:
  "snd (find_similar_preds example_library example_inputs) = Inr example_report
   \<and> size (mset example_report) = length (test_smiles example_inputs)"
proof -
  have a: "snd (find_similar_preds example_library example_inputs) = Inr example_report"
    by (simp add: example_run)
  from train_groups_follow_selection [OF a] obtain neighbors where
    "length neighbors = length (test_smiles example_inputs)"
    and "mset example_report = mset neighbors"
    by blast
  then have "size (mset example_report) = length (test_smiles example_inputs)"
    by simp
  with a show ?thesis
    by simp
qed

text \<open>
  Claim C8: when \<^verbatim>\<open>num_neighbors\<close> is at least the number of training molecules, the
  selection of every test molecule holds every training index exactly once, and every
  row written lists every training molecule exactly once.
\<close>

theorem clamp_selects_every_reference:
  assumes "snd (find_similar_preds L inp) = Inr report"
    and "argsort_spec (argsort L)"
    and "length (train_morgans inp) = length (train_smiles inp)"
    and "length (train_vecs inp) = length (train_smiles inp)"
    and "int (length (train_smiles inp)) \<le> num_neighbors inp"
  shows "(\<forall>i<length (test_smiles inp).
            mset (neighbor_set L inp i) = mset [0..<length (train_smiles inp)]
            \<and> distinct (neighbor_set L inp i))
         \<and> (\<forall>n\<in>set report.
               length (col_train n) = length (train_smiles inp)
               \<and> mset (map col_train_smiles (col_train n)) = mset (train_smiles inp))"
proof -
  let ?n = "length (train_smiles inp)"
  have sel: "mset (neighbor_set L inp i) = mset [0..<?n] \<and> distinct (neighbor_set L inp i)"
    if i: "i < length (test_smiles inp)" for i
  proof -
    let ?row = "dist_matrix_of L inp ! i"
    note rg = run_ranges [OF assms(1) i]
    have row: "length ?row = ?n"
      using rg(1,2) assms(3,4) by (simp add: dist_matrix_of_def vec_matrix_nth morgan_matrix_nth)
    have "length (argsort L ?row) \<le> nat (num_neighbors inp)"
      using argsort_specD(1) [OF assms(2), of ?row] row assms(5) by simp
    then have all: "neighbor_set L inp i = argsort L ?row"
      using assms(5) by (simp add: neighbor_set_def nearest_train_of_def slice_to_def)
    have "mset (argsort L ?row) = mset [0..<?n]"
      using assms(2) row by (simp add: argsort_spec_def)
    then show ?thesis
      using argsort_specD(2) [OF assms(2), of ?row] by (simp add: all)
  qed
  have rows: "length (col_train n) = ?n
              \<and> mset (map col_train_smiles (col_train n)) = mset (train_smiles inp)"
    if "n \<in> set report" for n
  proof -
    from that obtain i where i: "i < length (test_smiles inp)" and n: "n = neighbor_row L inp i"
      using run_report [OF assms(1)] by (auto simp: sort_by_test_pred_def)
    have names: "map col_train_smiles (col_train n)
                   = map (\<lambda>j. train_smiles inp ! j) (neighbor_set L inp i)"
      by (simp add: n neighbor_row_def group_at_def)
    have "mset (map (\<lambda>j. train_smiles inp ! j) (neighbor_set L inp i))
            = image_mset (\<lambda>j. train_smiles inp ! j) (mset [0..<?n])"
      using sel [OF i] by (simp only: mset_map)
    also have "\<dots> = mset (map (\<lambda>j. train_smiles inp ! j) [0..<?n])"
      by (simp only: mset_map)
    also have "\<dots> = mset (train_smiles inp)"
      by (simp only: map_nth)
    finally have "mset (map col_train_smiles (col_train n)) = mset (train_smiles inp)"
      by (simp only: names)
    moreover have "length (col_train n) = ?n"
      using mset_eq_length [of "neighbor_set L inp i" "[0..<?n]"] sel [OF i]
      by (simp add: n neighbor_row_def)
    ultimately show ?thesis
      by simp
  qed
  show ?thesis
    using sel rows by blast
qed

theorem clamp_selects_every_reference_witness:
  "snd (find_similar_preds example_library (example_inputs\<lparr>num_neighbors := 3\<rparr>))
     = Inr (projr (snd (find_similar_preds example_library
                          (example_inputs\<lparr>num_neighbors := 3\<rparr>))))
   \<and> argsort_spec (argsort example_library)
   \<and> length (train_morgans (example_inputs\<lparr>num_neighbors := 3\<rparr>))
       = length (train_smiles (example_inputs\<lparr>num_neighbors := 3\<rparr>))
   \<and> length (train_vecs (example_inputs\<lparr>num_neighbors := 3\<rparr>))
       = length (train_smiles (example_inputs\<lparr>num_neighbors := 3\<rparr>))
   \<and> int (length (train_smiles (example_inputs\<lparr>num_neighbors := 3\<rparr>)))
       \<le> num_neighbors (example_inputs\<lparr>num_neighbors := 3\<rparr>)
   \<and> mset (neighbor_set example_library (example_inputs\<lparr>num_neighbors := 3\<rparr>) 0)
       = mset [0..<length (train_smiles (example_inputs\<lparr>num_neighbors := 3\<rparr>))]"
proof -
  let ?inp = "example_inputs\<lparr>num_neighbors := 3\<rparr>"
  have a: "snd (find_similar_preds example_library ?inp)
             = Inr (projr (snd (find_similar_preds example_library ?inp)))"
    by code_simp
  have b: "argsort_spec (argsort example_library)"
    by (simp add: example_library_def argsort_stable_spec)
  have c: "length (train_morgans ?inp) = length (train_smiles ?inp)"
    by (simp add: example_inputs_def)
  have d: "length (train_vecs ?inp) = length (train_smiles ?inp)"
    by (simp add: example_inputs_def)
  have e: "int (length (train_smiles ?inp)) \<le> num_neighbors ?inp"
    by (simp add: example_inputs_def)
  have f: "0 < length (test_smiles ?inp)"
    by (simp add: example_inputs_def)
  show ?thesis
    using clamp_selects_every_reference [OF a b c d e] a b c d e f by blast
qed

text \<open>
  Claim C4, as stated: a number of neighbors that is not positive is a fatal
  configuration error. The code never tests \<^verbatim>\<open>num_neighbors\<close>: with \<open>0\<close> the sample run
  completes and writes three rows without neighbors, whose averages are NaN.
\<close>

theorem zero_neighbors_counterexample:
  "find_similar_preds example_library (example_inputs\<lparr>num_neighbors := 0\<rparr>)
     = ([Cdist ''jaccard'', Cdist ''cosine'', Open_save_path],
        Inr [\<lparr>col_test_smiles = ''CCN'', col_in_train = False, col_test_pred = 9 / 10,
              col_avg_vec_cosine_dist = None, col_avg_morgan_jaccard_dist = None,
              col_train = []\<rparr>,
             \<lparr>col_test_smiles = ''CCO'', col_in_train = True, col_test_pred = 1 / 5,
              col_avg_vec_cosine_dist = None, col_avg_morgan_jaccard_dist = None,
              col_train = []\<rparr>,
             \<lparr>col_test_smiles = ''CCC'', col_in_train = False, col_test_pred = 1 / 5,
              col_avg_vec_cosine_dist = None, col_avg_morgan_jaccard_dist = None,
              col_train = []\<rparr>])"
  by code_simp

text \<open>
  Claim C4, amended: a number of neighbors of \<open>0\<close> is not rejected. On aligned, non-empty
  data with a supported measure the run completes without error and writes one row per
  test molecule, sorted by prediction, each with the molecule's SMILES string, training
  set membership and prediction, no neighbor and NaN for both averages. Nothing is stated
  here for a negative number of neighbors.
\<close>

theorem zero_num_neighbors_completes:
  assumes "num_neighbors inp = 0"
    and "aligned inp" and "test_smiles inp \<noteq> []" and "train_smiles inp \<noteq> []"
    and "distance_measure inp = ''vec'' \<or> distance_measure inp = ''morgan''"
  shows "find_similar_preds L inp
           = ([Cdist ''jaccard'', Cdist ''cosine'', Open_save_path],
              Inr (sort_key (\<lambda>n. - col_test_pred n)
                     (map (\<lambda>i. \<lparr>col_test_smiles = test_smiles inp ! i,
                                 col_in_train = (test_smiles inp ! i \<in> set (train_smiles inp)),
                                 col_test_pred = test_preds inp ! i ! 0,
                                 col_avg_vec_cosine_dist = None,
                                 col_avg_morgan_jaccard_dist = None,
                                 col_train = []\<rparr>)
                        [0..<length (test_smiles inp)])))"
proof -
  have none: "neighbor_set L inp i = []" for i
    using assms(1) by (simp add: neighbor_set_def nearest_train_of_def slice_to_def)
  have "\<exists>report. find_similar_preds L inp
           = ([Cdist ''jaccard'', Cdist ''cosine'', Open_save_path], Inr report)"
    by (rule run_total [OF assms(2-5), where c = 0]) (simp_all add: none)
  then obtain report where
    run: "find_similar_preds L inp
            = ([Cdist ''jaccard'', Cdist ''cosine'', Open_save_path], Inr report)"
    by blast
  then have "snd (find_similar_preds L inp) = Inr report"
    by simp
  then have "report = sort_by_test_pred (map (neighbor_row L inp) [0..<length (test_smiles inp)])"
    by (rule run_report)
  moreover have "neighbor_row L inp
                   = (\<lambda>i. \<lparr>col_test_smiles = test_smiles inp ! i,
                             col_in_train = (test_smiles inp ! i \<in> set (train_smiles inp)),
                             col_test_pred = test_preds inp ! i ! 0,
                             col_avg_vec_cosine_dist = None,
                             col_avg_morgan_jaccard_dist = None,
                             col_train = []\<rparr>)"
    by (rule ext) (simp add: neighbor_row_def none np_mean_def)
  ultimately show ?thesis
    using run by (simp add: sort_by_test_pred_def)
qed

theorem zero_num_neighbors_completes_witness:
  "num_neighbors (example_inputs\<lparr>distance_measure := ''vec'', num_neighbors := 0\<rparr>) = 0
   \<and> aligned (example_inputs\<lparr>distance_measure := ''vec'', num_neighbors := 0\<rparr>)
   \<and> test_smiles (example_inputs\<lparr>distance_measure := ''vec'', num_neighbors := 0\<rparr>) \<noteq> []
   \<and> train_smiles (example_inputs\<lparr>distance_measure := ''vec'', num_neighbors := 0\<rparr>) \<noteq> []
   \<and> distance_measure (example_inputs\<lparr>distance_measure := ''vec'', num_neighbors := 0\<rparr>)
       = ''vec''
   \<and> fst (find_similar_preds example_library
             (example_inputs\<lparr>distance_measure := ''vec'', num_neighbors := 0\<rparr>))
       = [Cdist ''jaccard'', Cdist ''cosine'', Open_save_path]"
proof -
  let ?inp = "example_inputs\<lparr>distance_measure := ''vec'', num_neighbors := 0\<rparr>"
  have a: "num_neighbors ?inp = 0"
    by simp
  have b: "aligned ?inp"
    by (simp add: aligned_def example_inputs_def)
  have c: "test_smiles ?inp \<noteq> []"
    by (simp add: example_inputs_def)
  have d: "train_smiles ?inp \<noteq> []"
    by (simp add: example_inputs_def)
  have e: "distance_measure ?inp = ''vec''"
    by simp
  show ?thesis
    using zero_num_neighbors_completes [OF a b c d disjI1 [OF e], of example_library] a b c d e
    by simp
qed

end
